theory Spec2Isabelle
  imports Complex_Main
begin

section \<open>Implicit matrix operators of pygimli/core/matrix.py\<close>

text \<open>
  The module defines matrix-free operators: objects with \<open>rows()\<close>, \<open>cols()\<close>,
  \<open>mult(x)\<close> and \<open>transMult(x)\<close>. Each class of the module is a constructor of the
  datatype \<open>matrix\<close>, with the fields the class stores as arguments; a method is a
  function on \<open>matrix\<close>, one equation per class, so that a call \<open>self.A.mult(x)\<close>
  dispatches on the class of \<open>self.A\<close> as Python does.

  Vector entries are Python floats. They are modelled as \<open>real\<close>: arithmetic is exact,
  rounding, infinities and not-a-number values are outside the model. The theorems
  below are about lengths, errors and the structure of the computations, which do not
  depend on rounding; only lemma \<open>adjoint_consistency\<close> uses the laws of exact
  arithmetic.

  Every \<open>raise\<close>, failed \<open>assert\<close> and failed name or attribute lookup is a value
  \<open>Inl e\<close> of the result type \<open>error + 'a\<close>.
\<close>

subsection \<open>Errors\<close>

datatype error =
    Exception string
  | AssertionError
  | AttributeError string
  | NameError string
  | ValueError
  | IndexError
  | DimensionError

text \<open>Sequencing of two computations that may raise: the first error wins.\<close>

definition and_then :: "error + 'a \<Rightarrow> ('a \<Rightarrow> error + 'b) \<Rightarrow> error + 'b" where
  "and_then m f = (case m of Inl e \<Rightarrow> Inl e | Inr v \<Rightarrow> f v)"

text \<open>
  Which errors report a dimension or shape mismatch: the exceptions the constructors
  raise, a failed shape assertion, and the mismatch errors of the two vector libraries.
  A missing attribute, an undefined name and a bad index do not.
\<close>

fun is_shape_error :: "error \<Rightarrow> bool" where
  "is_shape_error (Exception msg) = True"
| "is_shape_error AssertionError = True"
| "is_shape_error ValueError = True"
| "is_shape_error DimensionError = True"
| "is_shape_error (AttributeError name) = False"
| "is_shape_error (NameError name) = False"
| "is_shape_error IndexError = False"

subsection \<open>Vectors of the core library\<close>

type_synonym RVector = "real list"

text \<open>
  Modelled from the spec: the vector type \<open>pgcore.RVector\<close> and its operators \<open>*\<close>, \<open>+\<close>,
  indexing by an index vector, and the dot product are compiled code of the core library
  and are not part of the Python sources. The spec gives \<open>*\<close> as element-wise
  multiplication and \<open>+\<close> as pointwise addition, and lets an operation on vectors of
  different lengths fail.
\<close>

definition vmul :: "RVector \<Rightarrow> RVector \<Rightarrow> error + RVector" where
  "vmul a b = (if length a \<noteq> length b then Inl DimensionError else Inr (map2 (*) a b))"

definition vadd :: "RVector \<Rightarrow> RVector \<Rightarrow> error + RVector" where
  "vadd a b = (if length a \<noteq> length b then Inl DimensionError else Inr (map2 (+) a b))"

definition dot :: "RVector \<Rightarrow> RVector \<Rightarrow> error + real" where
  "dot a b = (if length a \<noteq> length b then Inl DimensionError
              else Inr (sum_list (map2 (*) a b)))"

definition getitem :: "RVector \<Rightarrow> nat list \<Rightarrow> error + RVector" where
  "getitem x p = (if list_all (\<lambda>i. i < length x) p then Inr (map (\<lambda>i. x ! i) p)
                  else Inl IndexError)"

definition RVector :: "nat \<Rightarrow> real \<Rightarrow> RVector" where
  "RVector n v = replicate n v"

subsection \<open>Arrays of numpy\<close>

text \<open>
  \<open>Cm05Matrix\<close> works on numpy arrays. A one-dimensional array is a list, a
  two-dimensional array the list of its rows. numpy is a library outside the repository;
  the three operations the class uses are written out with numpy's shape rules:
  \<open>np.dot\<close> raises \<open>ValueError\<close> when the contracted extents differ, and \<open>*\<close> on two
  one-dimensional arrays broadcasts an array of length one and raises \<open>ValueError\<close> on
  any other length mismatch.
\<close>

type_synonym ndarray = "real list list"

definition shape0 :: "ndarray \<Rightarrow> nat" where
  "shape0 M = length M"

definition shape1 :: "ndarray \<Rightarrow> nat" where
  "shape1 M = (case M of [] \<Rightarrow> 0 | row # _ \<Rightarrow> length row)"

text \<open>\<open>np.dot(x, M)\<close> for one-dimensional \<open>x\<close>: entry \<open>j\<close> is the sum of \<open>x[i] * M[i][j]\<close>.\<close>

definition np_dot_vm :: "real list \<Rightarrow> ndarray \<Rightarrow> error + real list" where
  "np_dot_vm x M =
     (if length x \<noteq> shape0 M then Inl ValueError
      else Inr (map (\<lambda>j. sum_list (map2 (\<lambda>xi row. xi * row ! j) x M)) [0..<shape1 M]))"

text \<open>\<open>M.dot(v)\<close> for a column \<open>v\<close>: entry \<open>i\<close> is the sum of \<open>M[i][j] * v[j]\<close>.\<close>

definition np_dot_mv :: "ndarray \<Rightarrow> real list \<Rightarrow> error + real list" where
  "np_dot_mv M v =
     (if shape1 M \<noteq> length v then Inl ValueError
      else Inr (map (\<lambda>row. sum_list (map2 (*) row v)) M))"

definition np_mul :: "real list \<Rightarrow> real list \<Rightarrow> error + real list" where
  "np_mul a b =
     (if length a = length b then Inr (map2 (*) a b)
      else if length a = 1 then Inr (map (\<lambda>y. hd a * y) b)
      else if length b = 1 then Inr (map (\<lambda>x. x * hd b) a)
      else Inl ValueError)"

subsection \<open>Operators\<close>

text \<open>
  A leaf is an operator that comes from outside the module (a dense or sparse matrix of
  the core library, or any object with the four methods): its extents and its two
  applications, as given.
\<close>

record leaf =
  leaf_rows :: nat
  leaf_cols :: nat
  leaf_mult :: "RVector \<Rightarrow> error + RVector"
  leaf_transMult :: "RVector \<Rightarrow> error + RVector"

text \<open>
  The classes. \<open>MultRightMatrix\<close> carries a third field for the attribute \<open>perm\<close>, which
  \<open>mult\<close> reads: no statement of the module assigns it, so it is \<open>None\<close> (no such
  attribute) on every object the constructor returns. \<open>Cm05Matrix\<close> stores
  \<open>size\<close>, \<open>ew\<close>, \<open>EV\<close>, \<open>mul\<close> and \<open>A\<close>, in this order; its constructor computes
  \<open>ew\<close>, \<open>EV\<close> and \<open>mul\<close> in double precision (\<open>scipy.linalg.eigh\<close>, \<open>np.sqrt(1./ew)\<close>,
  infinite or not-a-number at an eigenvalue that is not positive), which exact reals do
  not reproduce, so an object of the class is taken with the fields it holds.
\<close>

datatype matrix =
    Leaf leaf
  | MultLeftMatrix matrix RVector
  | MultRightMatrix matrix RVector "nat list option"
  | MultLeftRightMatrix matrix RVector RVector
  | Add2Matrix matrix matrix
  | Mult2Matrix matrix matrix
  | DiagonalMatrix RVector
  | Cm05Matrix nat "real list" ndarray "real list" ndarray

fun rows :: "matrix \<Rightarrow> nat" where
  "rows (Leaf L) = leaf_rows L"
| "rows (MultLeftMatrix A l) = rows A"
| "rows (MultRightMatrix A r perm) = rows A"
| "rows (MultLeftRightMatrix A l r) = rows A"
| "rows (Add2Matrix A B) = rows A"
| "rows (Mult2Matrix A B) = rows A"
| "rows (DiagonalMatrix d) = length d"
| "rows (Cm05Matrix sz ew EV mul A) = sz"

fun cols :: "matrix \<Rightarrow> nat" where
  "cols (Leaf L) = leaf_cols L"
| "cols (MultLeftMatrix A l) = cols A"
| "cols (MultRightMatrix A r perm) = cols A"
| "cols (MultLeftRightMatrix A l r) = cols A"
| "cols (Add2Matrix A B) = cols A"
| "cols (Mult2Matrix A B) = cols B"
| "cols (DiagonalMatrix d) = length d"
| "cols (Cm05Matrix sz ew EV mul A) = sz"

fun mult :: "matrix \<Rightarrow> RVector \<Rightarrow> error + RVector" where
  "mult (Leaf L) x = leaf_mult L x"
| "mult (MultLeftMatrix A l) x = and_then (mult A x) (\<lambda>u. vmul u l)"
| "mult (MultRightMatrix A r perm) x =
     (if length x \<noteq> length r then
        (case perm of
           None \<Rightarrow> Inl (AttributeError ''perm'')
         | Some p \<Rightarrow> and_then (getitem x p) (\<lambda>xp. and_then (vmul xp r) (\<lambda>u. mult A u)))
      else and_then (vmul x r) (\<lambda>u. mult A u))"
| "mult (MultLeftRightMatrix A l r) x =
     and_then (vmul x r) (\<lambda>u. and_then (mult A u) (\<lambda>v. vmul v l))"
| "mult (Add2Matrix A B) x =
     and_then (mult A x) (\<lambda>u. and_then (mult B x) (\<lambda>v. vadd u v))"
| "mult (Mult2Matrix A B) x = and_then (mult B x) (\<lambda>u. mult A u)"
| "mult (DiagonalMatrix d) x = vmul x d"
| "mult (Cm05Matrix sz ew EV mul A) x =
     and_then (np_dot_vm x EV) (\<lambda>t. and_then (np_mul t mul) (\<lambda>part1. np_dot_mv EV part1))"

fun transMult :: "matrix \<Rightarrow> RVector \<Rightarrow> error + RVector" where
  "transMult (Leaf L) x = leaf_transMult L x"
| "transMult (MultLeftMatrix A l) x = and_then (vmul x l) (\<lambda>u. transMult A u)"
| "transMult (MultRightMatrix A r perm) x = and_then (transMult A x) (\<lambda>u. vmul u r)"
| "transMult (MultLeftRightMatrix A l r) x =
     and_then (vmul x l) (\<lambda>u. and_then (transMult A u) (\<lambda>v. vmul v r))"
| "transMult (Add2Matrix A B) x =
     and_then (transMult A x) (\<lambda>u. and_then (transMult B x) (\<lambda>v. vadd u v))"
| "transMult (Mult2Matrix A B) x = and_then (transMult A x) (\<lambda>u. transMult B u)"
| "transMult (DiagonalMatrix d) x = vmul x d"
| "transMult (Cm05Matrix sz ew EV mul A) x = mult (Cm05Matrix sz ew EV mul A) x"

subsection \<open>Constructors\<close>

text \<open>
  Each \<open>__init__\<close> returns the object it builds or the exception it raises. The flag
  \<open>verbose\<close> only switches a log line and is left out.
\<close>

definition MultLeftMatrix_init :: "matrix \<Rightarrow> RVector \<Rightarrow> error + matrix" where
  "MultLeftMatrix_init A left =
     (if rows A \<noteq> length left
      then Inl (Exception ''Matrix columns do not fit vector length!'')
      else Inr (MultLeftMatrix A left))"

definition MultRightMatrix_init :: "matrix \<Rightarrow> RVector option \<Rightarrow> error + matrix" where
  "MultRightMatrix_init A r =
     (case r of
        None \<Rightarrow> Inr (MultRightMatrix A (RVector (cols A) 1.0) None)
      | Some r' \<Rightarrow> Inr (MultRightMatrix A r' None))"

definition MultLeftRightMatrix_init :: "matrix \<Rightarrow> RVector \<Rightarrow> RVector \<Rightarrow> error + matrix" where
  "MultLeftRightMatrix_init A left right =
     (if cols A \<noteq> length right
      then Inl (Exception ''Matrix columns do not fit right vector length!'')
      else if rows A \<noteq> length left
      then Inl (Exception ''Matrix rows do not fit left vector length!'')
      else Inr (MultLeftRightMatrix A left right))"

definition Add2Matrix_init :: "matrix \<Rightarrow> matrix \<Rightarrow> error + matrix" where
  "Add2Matrix_init A B =
     (if rows A \<noteq> rows B then Inl AssertionError
      else if cols A \<noteq> cols B then Inl AssertionError
      else Inr (Add2Matrix A B))"

definition Mult2Matrix_init :: "matrix \<Rightarrow> matrix \<Rightarrow> error + matrix" where
  "Mult2Matrix_init A B =
     (if cols A \<noteq> rows B then Inl AssertionError else Inr (Mult2Matrix A B))"

definition DiagonalMatrix_init :: "RVector \<Rightarrow> error + matrix" where
  "DiagonalMatrix_init d = Inr (DiagonalMatrix d)"

subsection \<open>Weight-vector properties\<close>

text \<open>
  The scaling wrappers expose their weight vectors through \<open>property\<close> objects. A
  property has a getter and possibly a setter; \<open>@p.setter\<close> returns a copy of \<open>p\<close> with
  the setter filled in, and the class body binds that copy to the name of the decorated
  function. Assigning to an attribute that the class binds to a property calls the
  property's setter, or raises \<open>AttributeError\<close> when it has none.
\<close>

record property =
  fget :: "matrix \<Rightarrow> error + RVector"
  fset :: "(matrix \<Rightarrow> RVector \<Rightarrow> matrix) option"

definition property_init :: "(matrix \<Rightarrow> error + RVector) \<Rightarrow> property" where
  "property_init g = \<lparr>fget = g, fset = None\<rparr>"

definition setter :: "property \<Rightarrow> (matrix \<Rightarrow> RVector \<Rightarrow> matrix) \<Rightarrow> property" where
  "setter p f = p\<lparr>fset := Some f\<rparr>"

text \<open>
  The bodies of the decorated functions: \<open>return self._l\<close>, \<open>self._l = l\<close>,
  \<open>return self._r\<close>, \<open>self._r = r\<close>. On a class without the field, the store adds an
  attribute that no method reads, which leaves the modelled object as it was.
\<close>

fun get_l :: "matrix \<Rightarrow> error + RVector" where
  "get_l (MultLeftMatrix A l) = Inr l"
| "get_l (MultLeftRightMatrix A l r) = Inr l"
| "get_l M = Inl (AttributeError ''_l'')"

fun set_l :: "matrix \<Rightarrow> RVector \<Rightarrow> matrix" where
  "set_l (MultLeftMatrix A l) v = MultLeftMatrix A v"
| "set_l (MultLeftRightMatrix A l r) v = MultLeftRightMatrix A v r"
| "set_l M v = M"

fun get_r :: "matrix \<Rightarrow> error + RVector" where
  "get_r (MultRightMatrix A r perm) = Inr r"
| "get_r (MultLeftRightMatrix A l r) = Inr r"
| "get_r M = Inl (AttributeError ''_r'')"

fun set_r :: "matrix \<Rightarrow> RVector \<Rightarrow> matrix" where
  "set_r (MultRightMatrix A r perm) v = MultRightMatrix A v perm"
| "set_r (MultLeftRightMatrix A l r) v = MultLeftRightMatrix A l v"
| "set_r M v = M"

fun set_d :: "matrix \<Rightarrow> RVector \<Rightarrow> matrix" where
  "set_d (DiagonalMatrix d) v = DiagonalMatrix v"
| "set_d M v = M"

text \<open>
  The property bindings of each class body, statement by statement. In
  \<open>MultLeftMatrix\<close> the name \<open>l\<close> is bound to the getter-only property, and
  \<open>@l.setter def r\<close> binds the copy with the setter to the name \<open>r\<close>. In
  \<open>MultLeftRightMatrix\<close> the same two statements are followed by \<open>@property def r\<close> and
  \<open>@r.setter def r\<close>, which rebind \<open>r\<close>.
\<close>

definition MultLeftMatrix_class :: "(string \<times> property) list" where
  "MultLeftMatrix_class =
     (let l = property_init get_l;
          r = setter l set_l
      in [(''l'', l), (''r'', r)])"

definition MultRightMatrix_class :: "(string \<times> property) list" where
  "MultRightMatrix_class =
     (let r = property_init get_r;
          r = setter r set_r
      in [(''r'', r)])"

definition MultLeftRightMatrix_class :: "(string \<times> property) list" where
  "MultLeftRightMatrix_class =
     (let l = property_init get_l;
          r = setter l set_l;
          r = property_init get_r;
          r = setter r set_r
      in [(''l'', l), (''r'', r)])"

fun class_of :: "matrix \<Rightarrow> (string \<times> property) list" where
  "class_of (MultLeftMatrix A l) = MultLeftMatrix_class"
| "class_of (MultRightMatrix A r perm) = MultRightMatrix_class"
| "class_of (MultLeftRightMatrix A l r) = MultLeftRightMatrix_class"
| "class_of M = []"

text \<open>
  The assignment \<open>obj.name = v\<close> of a vector. A name that is no property of the class is
  an instance attribute: the fields \<open>_l\<close>, \<open>_r\<close> and \<open>d\<close> are stored, any other name is an
  attribute no method reads.
\<close>

definition instance_setattr :: "matrix \<Rightarrow> string \<Rightarrow> RVector \<Rightarrow> matrix" where
  "instance_setattr obj name v =
     (if name = ''_l'' then set_l obj v
      else if name = ''_r'' then set_r obj v
      else if name = ''d'' then set_d obj v
      else obj)"

definition setattr :: "matrix \<Rightarrow> string \<Rightarrow> RVector \<Rightarrow> error + matrix" where
  "setattr obj name v =
     (case map_of (class_of obj) name of
        Some p \<Rightarrow> (case fset p of
                     None \<Rightarrow> Inl (AttributeError name)
                   | Some f \<Rightarrow> Inr (f obj v))
      | None \<Rightarrow> Inr (instance_setattr obj name v))"

subsection \<open>A leaf of the core library\<close>

text \<open>
  Modelled from the spec: \<open>pgcore.IdentityMatrix\<close>, which the module re-exports, is
  compiled code. As a leaf operator it satisfies the operator contract: it has \<open>n\<close> rows
  and columns, returns its input, and fails on an input of another length.
\<close>

definition IdentityMatrix :: "nat \<Rightarrow> leaf" where
  "IdentityMatrix n =
     \<lparr>leaf_rows = n, leaf_cols = n,
      leaf_mult = (\<lambda>x. if length x \<noteq> n then Inl DimensionError else Inr x),
      leaf_transMult = (\<lambda>x. if length x \<noteq> n then Inl DimensionError else Inr x)\<rparr>"

subsection \<open>The block-diagonal matrix\<close>

text \<open>
  Modelled from the spec: the block container \<open>pgcore.RBlockMatrix\<close> is compiled code.
  It is an ordered collection of sub-matrices and of placement entries (matrix index, row
  offset, column offset); its extents are the largest row offset plus sub-matrix rows and
  the largest column offset plus sub-matrix columns over the entries. A dense sub-matrix
  is kept by its shape.
\<close>

record BlockMatrix =
  matrices :: "(nat \<times> nat) list"
  entries :: "(nat \<times> nat \<times> nat) list"
  block_rows :: nat
  block_cols :: nat

definition addMatrix :: "'a BlockMatrix_scheme \<Rightarrow> nat \<times> nat \<Rightarrow> 'a BlockMatrix_scheme \<times> nat" where
  "addMatrix self M = (self\<lparr>matrices := matrices self @ [M]\<rparr>, length (matrices self))"

definition addMatrixEntry :: "'a BlockMatrix_scheme \<Rightarrow> nat \<Rightarrow> nat \<Rightarrow> nat \<Rightarrow> 'a BlockMatrix_scheme" where
  "addMatrixEntry self n rowOffset colOffset =
     self\<lparr>entries := entries self @ [(n, rowOffset, colOffset)]\<rparr>"

definition recalcMatrixSize :: "'a BlockMatrix_scheme \<Rightarrow> 'a BlockMatrix_scheme" where
  "recalcMatrixSize self =
     self\<lparr>block_rows :=
            fold max (map (\<lambda>(n, ro, co). ro + fst (matrices self ! n)) (entries self)) 0,
          block_cols :=
            fold max (map (\<lambda>(n, ro, co). co + snd (matrices self ! n)) (entries self)) 0\<rparr>"

text \<open>
  \<open>NDMatrix\<close> adds the list \<open>Ji\<close> of its blocks; \<open>gc_mats\<close> is the list \<open>__mats__\<close> that the
  module's replacement of \<open>addMatrix\<close> appends to before it calls the original.
\<close>

record NDMatrix = BlockMatrix +
  Ji :: "(nat \<times> nat) list"
  gc_mats :: "(nat \<times> nat) list"

definition addMatrix_happy_GC :: "NDMatrix \<Rightarrow> nat \<times> nat \<Rightarrow> NDMatrix \<times> nat" where
  "addMatrix_happy_GC self M = addMatrix (self\<lparr>gc_mats := gc_mats self @ [M]\<rparr>) M"

text \<open>
  The names bound at module level of matrix.py, in the order of their binding: the
  imports, the aliases of the core classes, and the classes and functions the module
  defines. A name that is read and is not among them (nor a builtin) raises
  \<open>NameError\<close>.
\<close>

definition module_globals :: "string list" where
  "module_globals =
     [''time'', ''np'', ''pgcore'', ''CMatrix'', ''CSparseMapMatrix'', ''CSparseMatrix'',
      ''ElementMatrix'', ''IVector'', ''MatrixBase'', ''R3Vector'', ''RVector'', ''warn'',
      ''BlockMatrix'', ''IdentityMatrix'', ''SparseMapMatrix'', ''SparseMatrix'',
      ''Vector'', ''Matrix'', ''MultMatrix'', ''MultLeftMatrix'', ''LMultRMatrix'',
      ''MultRightMatrix'', ''RMultRMatrix'', ''MultLeftRightMatrix'', ''LRMultRMatrix'',
      ''__BlockMatrix_addMatrix__'', ''__BlockMatrix_addMatrix_happy_GC__'',
      ''Add2Matrix'', ''Mult2Matrix'', ''DiagonalMatrix'', ''Cm05Matrix'', ''NDMatrix'']"

text \<open>
  The loop of \<open>NDMatrix.__init__\<close> over \<open>range(num)\<close>. Its first statement reads the
  global name \<open>pg\<close>; were it bound to the package, \<open>pg.Matrix()\<close> would be an empty dense
  matrix, which \<open>resize\<close> gives the shape \<open>(nrows, ncols)\<close>.
\<close>

fun NDMatrix_loop :: "nat list \<Rightarrow> nat \<Rightarrow> nat \<Rightarrow> NDMatrix \<Rightarrow> error + NDMatrix" where
  "NDMatrix_loop [] nrows ncols self = Inr self"
| "NDMatrix_loop (i # rest) nrows ncols self =
     (if ''pg'' \<notin> set module_globals then Inl (NameError ''pg'')
      else
        (let M = (nrows, ncols);
             self1 = self\<lparr>Ji := Ji self @ [M]\<rparr>;
             (self2, n) = addMatrix_happy_GC self1 M;
             self3 = addMatrixEntry self2 n (nrows * i) (ncols * i)
         in NDMatrix_loop rest nrows ncols self3))"

definition NDMatrix_init :: "nat \<Rightarrow> nat \<Rightarrow> nat \<Rightarrow> error + NDMatrix" where
  "NDMatrix_init num nrows ncols =
     and_then
       (NDMatrix_loop [0..<num] nrows ncols
          \<lparr>matrices = [], entries = [], block_rows = 0, block_cols = 0, Ji = [], gc_mats = []\<rparr>)
       (\<lambda>self. Inr (recalcMatrixSize self))"

subsection \<open>The operator contract and the length invariants\<close>


text \<open>
  A leaf is adjoint-consistent when, on inputs of the expected lengths, both applications
  return vectors of the other extent and \<open>dot(mult(x), y) == dot(x, transMult(y))\<close>.
\<close>

definition adjoint :: "leaf \<Rightarrow> bool" where
  "adjoint L =
     (\<forall>x y. length x = leaf_cols L \<and> length y = leaf_rows L \<longrightarrow>
        (\<exists>u v. leaf_mult L x = Inr u \<and> leaf_transMult L y = Inr v
             \<and> length u = leaf_rows L \<and> length v = leaf_cols L
             \<and> dot u y = dot x v))"

fun leaves :: "matrix \<Rightarrow> leaf list" where
  "leaves (Leaf L) = [L]"
| "leaves (MultLeftMatrix A l) = leaves A"
| "leaves (MultRightMatrix A r perm) = leaves A"
| "leaves (MultLeftRightMatrix A l r) = leaves A"
| "leaves (Add2Matrix A B) = leaves A @ leaves B"
| "leaves (Mult2Matrix A B) = leaves A @ leaves B"
| "leaves (DiagonalMatrix d) = []"
| "leaves (Cm05Matrix sz ew EV mul A) = []"

text \<open>
  The length invariants of the data model, at every node of an operator: a weight vector
  has the length of the base extent it scales, the operands of a sum have one shape, the
  inner extents of a product agree, the eigenvector array and the scales of a
  \<open>Cm05Matrix\<close> have its size.
\<close>

fun weights_fit :: "matrix \<Rightarrow> bool" where
  "weights_fit (Leaf L) = True"
| "weights_fit (MultLeftMatrix A l) = (weights_fit A \<and> length l = rows A)"
| "weights_fit (MultRightMatrix A r perm) = (weights_fit A \<and> length r = cols A)"
| "weights_fit (MultLeftRightMatrix A l r) =
     (weights_fit A \<and> length r = cols A \<and> length l = rows A)"
| "weights_fit (Add2Matrix A B) =
     (weights_fit A \<and> weights_fit B \<and> rows A = rows B \<and> cols A = cols B)"
| "weights_fit (Mult2Matrix A B) = (weights_fit A \<and> weights_fit B \<and> cols A = rows B)"
| "weights_fit (DiagonalMatrix d) = True"
| "weights_fit (Cm05Matrix sz ew EV mul A) =
     (length EV = sz \<and> list_all (\<lambda>row. length row = sz) EV \<and> length mul = sz)"

text \<open>The operators built from leaves by scaling, sum, product and diagonal only.\<close>

fun scaled_sum_product_diagonal :: "matrix \<Rightarrow> bool" where
  "scaled_sum_product_diagonal (Leaf L) = True"
| "scaled_sum_product_diagonal (MultLeftMatrix A l) = scaled_sum_product_diagonal A"
| "scaled_sum_product_diagonal (MultRightMatrix A r perm) = scaled_sum_product_diagonal A"
| "scaled_sum_product_diagonal (MultLeftRightMatrix A l r) = scaled_sum_product_diagonal A"
| "scaled_sum_product_diagonal (Add2Matrix A B) =
     (scaled_sum_product_diagonal A \<and> scaled_sum_product_diagonal B)"
| "scaled_sum_product_diagonal (Mult2Matrix A B) =
     (scaled_sum_product_diagonal A \<and> scaled_sum_product_diagonal B)"
| "scaled_sum_product_diagonal (DiagonalMatrix d) = True"
| "scaled_sum_product_diagonal (Cm05Matrix sz ew EV mul A) = False"


subsection \<open>The operations as the specification words them\<close>

text \<open>
  Right-only scaling: \<open>apply(x) = base.apply(x * right)\<close>,
  \<open>applyAdjoint(y) = base.applyAdjoint(y) * right\<close>.
\<close>

definition spec_right_apply :: "matrix \<Rightarrow> RVector \<Rightarrow> RVector \<Rightarrow> error + RVector" where
  "spec_right_apply base right x = and_then (vmul x right) (mult base)"

definition spec_right_applyAdjoint :: "matrix \<Rightarrow> RVector \<Rightarrow> RVector \<Rightarrow> error + RVector" where
  "spec_right_applyAdjoint base right y = and_then (transMult base y) (\<lambda>u. vmul u right)"

text \<open>
  Left-only scaling: \<open>apply(x) = base.apply(x) * left\<close>,
  \<open>applyAdjoint(y) = base.applyAdjoint(y * left)\<close>.
\<close>

definition spec_left_apply :: "matrix \<Rightarrow> RVector \<Rightarrow> RVector \<Rightarrow> error + RVector" where
  "spec_left_apply base left x = and_then (mult base x) (\<lambda>u. vmul u left)"

definition spec_left_applyAdjoint :: "matrix \<Rightarrow> RVector \<Rightarrow> RVector \<Rightarrow> error + RVector" where
  "spec_left_applyAdjoint base left y = and_then (vmul y left) (transMult base)"

text \<open>
  Two-sided scaling: \<open>apply(x) = left * base.apply(x * right)\<close>,
  \<open>applyAdjoint(y) = right * base.applyAdjoint(y * left)\<close>.
\<close>

definition spec_both_apply :: "matrix \<Rightarrow> RVector \<Rightarrow> RVector \<Rightarrow> RVector \<Rightarrow> error + RVector" where
  "spec_both_apply base left right x =
     and_then (vmul x right) (\<lambda>xr. and_then (mult base xr) (\<lambda>u. vmul left u))"

definition spec_both_applyAdjoint :: "matrix \<Rightarrow> RVector \<Rightarrow> RVector \<Rightarrow> RVector \<Rightarrow> error + RVector" where
  "spec_both_applyAdjoint base left right y =
     and_then (vmul y left) (\<lambda>yl. and_then (transMult base yl) (\<lambda>u. vmul right u))"

text \<open>
  Sum: \<open>apply(x) = A.apply(x) + B.apply(x)\<close>; product: \<open>apply(x) = A.apply(B.apply(x))\<close>,
  \<open>applyAdjoint(y) = B.applyAdjoint(A.applyAdjoint(y))\<close>.
\<close>

definition spec_sum_apply :: "matrix \<Rightarrow> matrix \<Rightarrow> RVector \<Rightarrow> error + RVector" where
  "spec_sum_apply A B x = and_then (mult A x) (\<lambda>a. and_then (mult B x) (\<lambda>b. vadd a b))"

definition spec_sum_applyAdjoint :: "matrix \<Rightarrow> matrix \<Rightarrow> RVector \<Rightarrow> error + RVector" where
  "spec_sum_applyAdjoint A B y =
     and_then (transMult A y) (\<lambda>a. and_then (transMult B y) (\<lambda>b. vadd a b))"

definition spec_product_apply :: "matrix \<Rightarrow> matrix \<Rightarrow> RVector \<Rightarrow> error + RVector" where
  "spec_product_apply A B x = and_then (mult B x) (mult A)"

definition spec_product_applyAdjoint :: "matrix \<Rightarrow> matrix \<Rightarrow> RVector \<Rightarrow> error + RVector" where
  "spec_product_applyAdjoint A B y = and_then (transMult A y) (transMult B)"


subsection \<open>Apply-time behaviour\<close>



text \<open>
  An operator is adjoint-consistent when, for \<open>x\<close> of length \<open>cols\<close> and \<open>y\<close> of length
  \<open>rows\<close>, both applications return vectors of the other extent and
  \<open>dot(mult(x), y) == dot(x, transMult(y))\<close>.
\<close>

definition adjoint_consistent :: "matrix \<Rightarrow> bool" where
  "adjoint_consistent M =
     (\<forall>x y. length x = cols M \<and> length y = rows M \<longrightarrow>
        (\<exists>u v. mult M x = Inr u \<and> transMult M y = Inr v
             \<and> length u = rows M \<and> length v = cols M
             \<and> dot u y = dot x v))"

section \<open>Properties\<close>

subsection \<open>Auxiliary facts\<close>

lemma IdentityMatrix_simps [simp]:
  "leaf_rows (IdentityMatrix n) = n"
  "leaf_cols (IdentityMatrix n) = n"
  "leaf_mult (IdentityMatrix n) x = (if length x \<noteq> n then Inl DimensionError else Inr x)"
  "leaf_transMult (IdentityMatrix n) x = (if length x \<noteq> n then Inl DimensionError else Inr x)"
  by (simp_all add: IdentityMatrix_def)


lemma IdentityMatrix_adjoint: "adjoint (IdentityMatrix n)"
  by (simp add: adjoint_def)

lemma map2_mult_commute: "map2 (*) a b = map2 (*) b (a :: real list)"
proof (induction a arbitrary: b)
  case Nil
  show ?case by simp
next
  case (Cons x xs)
  show ?case by (cases b) (simp_all add: Cons.IH mult.commute)
qed

lemma vmul_commute: "vmul a b = vmul b a"
  by (simp add: vmul_def map2_mult_commute [of a b])

lemma and_then_simps [simp]:
  "and_then (Inr v) f = f v"
  "and_then (Inl e) f = Inl e"
  by (simp_all add: and_then_def)

lemma vmul_simps:
  "length a = length b \<Longrightarrow> vmul a b = Inr (map2 (*) a b)"
  "length a \<noteq> length b \<Longrightarrow> vmul a b = Inl DimensionError"
  by (simp_all add: vmul_def)

lemma vadd_simps:
  "length a = length b \<Longrightarrow> vadd a b = Inr (map2 (+) a b)"
  "length a \<noteq> length b \<Longrightarrow> vadd a b = Inl DimensionError"
  by (simp_all add: vadd_def)


subsection \<open>Scaling wrappers\<close>

text \<open>
  Claim C1. For every base operator \<open>A\<close>, weight vectors of matching length and inputs of
  the correct dimension, each scaling wrapper is constructed and its \<open>mult\<close> and
  \<open>transMult\<close> are the specification's \<open>apply\<close> and \<open>applyAdjoint\<close>: right-only
  \<open>A.mult(x * r)\<close> and \<open>A.transMult(y) * r\<close>; left-only \<open>A.mult(x) * l\<close> and
  \<open>A.transMult(y * l)\<close>; two-sided \<open>l * A.mult(x * r)\<close> and \<open>r * A.transMult(y * l)\<close>.
\<close>

theorem scaling_wrapper_semantics:
  assumes "length r = cols A" and "length l = rows A"
    and "length x = cols A" and "length y = rows A"
  shows "(\<exists>M. MultRightMatrix_init A (Some r) = Inr M
            \<and> mult M x = spec_right_apply A r x
            \<and> transMult M y = spec_right_applyAdjoint A r y)
       \<and> (\<exists>M. MultLeftMatrix_init A l = Inr M
            \<and> mult M x = spec_left_apply A l x
            \<and> transMult M y = spec_left_applyAdjoint A l y)
       \<and> (\<exists>M. MultLeftRightMatrix_init A l r = Inr M
            \<and> mult M x = spec_both_apply A l r x
            \<and> transMult M y = spec_both_applyAdjoint A l r y)"
proof (intro conjI)
  show "\<exists>M. MultRightMatrix_init A (Some r) = Inr M
            \<and> mult M x = spec_right_apply A r x
            \<and> transMult M y = spec_right_applyAdjoint A r y"
    using assms(1,3)
    by (simp add: MultRightMatrix_init_def spec_right_apply_def spec_right_applyAdjoint_def)
next
  show "\<exists>M. MultLeftMatrix_init A l = Inr M
            \<and> mult M x = spec_left_apply A l x
            \<and> transMult M y = spec_left_applyAdjoint A l y"
    using assms(2)
    by (simp add: MultLeftMatrix_init_def spec_left_apply_def spec_left_applyAdjoint_def)
next
  have comm: "\<And>u. vmul u l = vmul l u" "\<And>u. vmul u r = vmul r u"
    by (rule vmul_commute)+
  show "\<exists>M. MultLeftRightMatrix_init A l r = Inr M
            \<and> mult M x = spec_both_apply A l r x
            \<and> transMult M y = spec_both_applyAdjoint A l r y"
    using assms(1,2)
    by (simp add: MultLeftRightMatrix_init_def spec_both_apply_def spec_both_applyAdjoint_def comm)
qed

theorem scaling_wrapper_semantics_witness:
  "length [2, 1 :: real] = cols (Leaf (IdentityMatrix 2))
   \<and> length [3, 4 :: real] = rows (Leaf (IdentityMatrix 2))
   \<and> length [1, 1 :: real] = cols (Leaf (IdentityMatrix 2))
   \<and> MultRightMatrix_init (Leaf (IdentityMatrix 2)) (Some [2, 1])
       = Inr (MultRightMatrix (Leaf (IdentityMatrix 2)) [2, 1] None)
   \<and> mult (MultRightMatrix (Leaf (IdentityMatrix 2)) [2, 1] None) [1, 1] = Inr [2, 1]
   \<and> spec_right_apply (Leaf (IdentityMatrix 2)) [2, 1] [1, 1] = Inr [2, 1]
   \<and> mult (MultLeftRightMatrix (Leaf (IdentityMatrix 2)) [3, 4] [2, 1]) [1, 1] = Inr [6, 4]
   \<and> spec_both_apply (Leaf (IdentityMatrix 2)) [3, 4] [2, 1] [1, 1] = Inr [6, 4]"
  using scaling_wrapper_semantics [of "[2, 1]" "Leaf (IdentityMatrix 2)" "[3, 4]" "[1, 1]" "[1, 1]"]
  by (simp add: MultRightMatrix_init_def MultLeftRightMatrix_init_def MultLeftMatrix_init_def
      spec_right_apply_def spec_both_apply_def spec_right_applyAdjoint_def
      spec_left_apply_def spec_left_applyAdjoint_def spec_both_applyAdjoint_def
      vmul_def and_then_def)

subsection \<open>Product and sum\<close>

text \<open>
  Claim C6. For all operators \<open>A\<close>, \<open>B\<close> with \<open>A.cols() == B.rows()\<close>, the product
  \<open>Mult2Matrix(A, B)\<close> is constructed, has \<open>A.rows()\<close> rows and \<open>B.cols()\<close> columns, and for
  \<open>x\<close> of length \<open>B.cols()\<close> and \<open>y\<close> of length \<open>A.rows()\<close> its \<open>mult(x)\<close> is
  \<open>A.mult(B.mult(x))\<close> and its \<open>transMult(y)\<close> is \<open>B.transMult(A.transMult(y))\<close>.
\<close>

theorem product_combinator:
  assumes "cols A = rows B" and "length x = cols B" and "length y = rows A"
  shows "\<exists>M. Mult2Matrix_init A B = Inr M
           \<and> rows M = rows A \<and> cols M = cols B
           \<and> mult M x = spec_product_apply A B x
           \<and> transMult M y = spec_product_applyAdjoint A B y"
  using assms(1)
  by (simp add: Mult2Matrix_init_def spec_product_apply_def spec_product_applyAdjoint_def)

theorem product_combinator_witness:
  "cols (DiagonalMatrix [1, 2]) = rows (MultLeftMatrix (Leaf (IdentityMatrix 2)) [3, 4])
   \<and> length [1, 1 :: real] = cols (MultLeftMatrix (Leaf (IdentityMatrix 2)) [3, 4])
   \<and> length [1, 1 :: real] = rows (DiagonalMatrix [1, 2])
   \<and> Mult2Matrix_init (DiagonalMatrix [1, 2]) (MultLeftMatrix (Leaf (IdentityMatrix 2)) [3, 4])
       = Inr (Mult2Matrix (DiagonalMatrix [1, 2]) (MultLeftMatrix (Leaf (IdentityMatrix 2)) [3, 4]))
   \<and> mult (Mult2Matrix (DiagonalMatrix [1, 2]) (MultLeftMatrix (Leaf (IdentityMatrix 2)) [3, 4]))
        [1, 1] = Inr [3, 8]
   \<and> spec_product_apply (DiagonalMatrix [1, 2]) (MultLeftMatrix (Leaf (IdentityMatrix 2)) [3, 4])
        [1, 1] = Inr [3, 8]
   \<and> spec_product_applyAdjoint (DiagonalMatrix [1, 2])
        (MultLeftMatrix (Leaf (IdentityMatrix 2)) [3, 4]) [1, 1] = Inr [3, 8]"
  using product_combinator [of "DiagonalMatrix [1, 2]"
      "MultLeftMatrix (Leaf (IdentityMatrix 2)) [3, 4]" "[1, 1]" "[1, 1]"]
  by (simp add: Mult2Matrix_init_def spec_product_apply_def spec_product_applyAdjoint_def
      vmul_def and_then_def)

text \<open>
  Claim C7. For all operators \<open>A\<close>, \<open>B\<close> with equal rows and equal columns, the sum
  \<open>Add2Matrix(A, B)\<close> is constructed and has the shape of \<open>A\<close>; for correctly sized \<open>x\<close>
  and \<open>y\<close> its \<open>mult(x)\<close> is \<open>A.mult(x) + B.mult(x)\<close> and its \<open>transMult(y)\<close> is
  \<open>A.transMult(y) + B.transMult(y)\<close>. In particular the sum of the diagonal operators with
  diagonals \<open>[1, 2]\<close> and \<open>[3, 4]\<close>, applied to \<open>[1, 1]\<close>, returns \<open>[4, 6]\<close>.
\<close>

theorem sum_combinator:
  assumes "rows A = rows B" and "cols A = cols B"
    and "length x = cols A" and "length y = rows A"
  shows "(\<exists>M. Add2Matrix_init A B = Inr M
            \<and> rows M = rows A \<and> cols M = cols A
            \<and> mult M x = spec_sum_apply A B x
            \<and> transMult M y = spec_sum_applyAdjoint A B y)
       \<and> (\<exists>D1 D2 S. DiagonalMatrix_init [1, 2] = Inr D1 \<and> DiagonalMatrix_init [3, 4] = Inr D2
            \<and> Add2Matrix_init D1 D2 = Inr S \<and> mult S [1, 1] = Inr [4, 6])"
proof
  show "\<exists>M. Add2Matrix_init A B = Inr M
            \<and> rows M = rows A \<and> cols M = cols A
            \<and> mult M x = spec_sum_apply A B x
            \<and> transMult M y = spec_sum_applyAdjoint A B y"
    using assms(1,2)
    by (simp add: Add2Matrix_init_def spec_sum_apply_def spec_sum_applyAdjoint_def)
next
  show "\<exists>D1 D2 S. DiagonalMatrix_init [1, 2] = Inr D1 \<and> DiagonalMatrix_init [3, 4] = Inr D2
            \<and> Add2Matrix_init D1 D2 = Inr S \<and> mult S [1, 1] = Inr [4, 6]"
    by (simp add: DiagonalMatrix_init_def Add2Matrix_init_def vmul_def vadd_def and_then_def)
qed

theorem sum_combinator_witness:
  "rows (DiagonalMatrix [1, 2]) = rows (DiagonalMatrix [3, 4])
   \<and> cols (DiagonalMatrix [1, 2]) = cols (DiagonalMatrix [3, 4])
   \<and> length [1, 1 :: real] = cols (DiagonalMatrix [1, 2])
   \<and> length [1, 1 :: real] = rows (DiagonalMatrix [1, 2])
   \<and> Add2Matrix_init (DiagonalMatrix [1, 2]) (DiagonalMatrix [3, 4])
       = Inr (Add2Matrix (DiagonalMatrix [1, 2]) (DiagonalMatrix [3, 4]))
   \<and> mult (Add2Matrix (DiagonalMatrix [1, 2]) (DiagonalMatrix [3, 4])) [1, 1] = Inr [4, 6]
   \<and> spec_sum_apply (DiagonalMatrix [1, 2]) (DiagonalMatrix [3, 4]) [1, 1] = Inr [4, 6]
   \<and> transMult (Add2Matrix (DiagonalMatrix [1, 2]) (DiagonalMatrix [3, 4])) [1, 1] = Inr [4, 6]
   \<and> spec_sum_applyAdjoint (DiagonalMatrix [1, 2]) (DiagonalMatrix [3, 4]) [1, 1] = Inr [4, 6]"
  using sum_combinator [of "DiagonalMatrix [1, 2]" "DiagonalMatrix [3, 4]" "[1, 1]" "[1, 1]"]
  by (simp add: Add2Matrix_init_def spec_sum_apply_def spec_sum_applyAdjoint_def
      vmul_def vadd_def and_then_def)

subsection \<open>Rebinding a weight vector\<close>

lemma class_lookups:
  "map_of MultLeftMatrix_class ''l'' = Some (property_init get_l)"
  "map_of MultLeftMatrix_class ''r'' = Some (setter (property_init get_l) set_l)"
  "map_of MultRightMatrix_class ''r'' = Some (setter (property_init get_r) set_r)"
  "map_of MultLeftRightMatrix_class ''l'' = Some (property_init get_l)"
  "map_of MultLeftRightMatrix_class ''r'' = Some (setter (property_init get_r) set_r)"
  by (simp_all add: MultLeftMatrix_class_def MultRightMatrix_class_def
      MultLeftRightMatrix_class_def Let_def)

lemma property_fset:
  "fset (property_init g) = None"
  "fset (setter p f) = Some f"
  by (simp_all add: property_init_def setter_def)

text \<open>
  Claim C10. In \<open>MultLeftMatrix\<close> the property \<open>l\<close> has no setter: for every such object
  the assignment \<open>m.l = v\<close> raises \<open>AttributeError\<close>. The assignment \<open>m.r = v\<close> rebinds the
  left weight vector, and afterwards \<open>m.mult(x)\<close> is \<open>A.mult(x) * v\<close>, for every \<open>x\<close>.
\<close>

theorem left_wrapper_rebinding_inverted:
  "setattr (MultLeftMatrix A l) ''l'' v = Inl (AttributeError ''l'')
   \<and> (\<exists>m'. setattr (MultLeftMatrix A l) ''r'' v = Inr m'
          \<and> get_l m' = Inr v
          \<and> mult m' x = spec_left_apply A v x)"
  by (simp add: setattr_def class_lookups property_fset spec_left_apply_def)

text \<open>
  Claim C4, as the code has it. No setter validates: for every scaling wrapper and every
  replacement vector \<open>v\<close>, of whatever length, the assignment through the wrapper's setter
  \<open>r\<close> raises nothing at rebinding and stores \<open>v\<close> unchecked, as the right weights of the
  right-only and the two-sided wrapper and as the left weights of the left-only wrapper.
\<close>

theorem rebinding_is_unchecked:
  "setattr (MultRightMatrix A r perm) ''r'' v = Inr (MultRightMatrix A v perm)
   \<and> setattr (MultLeftRightMatrix A l r) ''r'' v = Inr (MultLeftRightMatrix A l v)
   \<and> setattr (MultLeftMatrix A l) ''r'' v = Inr (MultLeftMatrix A v)"
  by (simp add: setattr_def class_lookups property_fset)

text \<open>
  The claim as stated fails: on the right-only wrapper of the 2 by 2 identity, built with
  weights \<open>[1, 1]\<close>, assigning the vector \<open>[1, 2, 3]\<close> of length 3 to \<open>r\<close> succeeds.
\<close>

theorem rebinding_counterexample:
  "MultRightMatrix_init (Leaf (IdentityMatrix 2)) (Some [1, 1])
     = Inr (MultRightMatrix (Leaf (IdentityMatrix 2)) [1, 1] None)
   \<and> length [1, 2, 3 :: real] \<noteq> cols (MultRightMatrix (Leaf (IdentityMatrix 2)) [1, 1] None)
   \<and> setattr (MultRightMatrix (Leaf (IdentityMatrix 2)) [1, 1] None) ''r'' [1, 2, 3]
     = Inr (MultRightMatrix (Leaf (IdentityMatrix 2)) [1, 2, 3] None)"
  by (simp add: MultRightMatrix_init_def setattr_def class_lookups property_fset)

subsection \<open>Construction\<close>

text \<open>
  The constructors that validate: the left-only and the two-sided wrapper, the sum and
  the product raise on inconsistent dimensions.
\<close>

lemma validating_constructors:
  "length l \<noteq> rows A \<Longrightarrow> \<exists>e. MultLeftMatrix_init A l = Inl e"
  "length l \<noteq> rows A \<or> length r \<noteq> cols A \<Longrightarrow> \<exists>e. MultLeftRightMatrix_init A l r = Inl e"
  "rows A \<noteq> rows B \<or> cols A \<noteq> cols B \<Longrightarrow> \<exists>e. Add2Matrix_init A B = Inl e"
  "cols A \<noteq> rows B \<Longrightarrow> \<exists>e. Mult2Matrix_init A B = Inl e"
  by (auto simp: MultLeftMatrix_init_def MultLeftRightMatrix_init_def Add2Matrix_init_def
      Mult2Matrix_init_def)

text \<open>
  Claim C3, at the input where the code departs from it. The constructor of the
  right-only wrapper makes no check: for the 2 by 2 identity and the weight vector
  \<open>[1, 2, 3]\<close> of length 3 it returns a wrapper.
\<close>

theorem right_wrapper_constructor_unchecked:
  "length [1, 2, 3 :: real] \<noteq> cols (Leaf (IdentityMatrix 2))
   \<and> MultRightMatrix_init (Leaf (IdentityMatrix 2)) (Some [1, 2, 3])
     = Inr (MultRightMatrix (Leaf (IdentityMatrix 2)) [1, 2, 3] None)"
  by (simp add: MultRightMatrix_init_def)

text \<open>
  Claim C9, at the input where the code departs from it. The loop of \<open>NDMatrix.__init__\<close>
  reads the name \<open>pg\<close>, which the module never binds: for one block of shape 2 by 2 the
  constructor raises \<open>NameError\<close>.
\<close>

theorem NDMatrix_name_error:
  "NDMatrix_init 1 2 2 = Inl (NameError ''pg'')"
  by (simp add: NDMatrix_init_def module_globals_def and_then_def)

lemma NDMatrix_fails_for_positive_num:
  "0 < num \<Longrightarrow> NDMatrix_init num nrows ncols = Inl (NameError ''pg'')"
proof -
  assume "0 < num"
  then have "[0..<num] = 0 # [1..<num]"
    by (simp add: upt_conv_Cons)
  then show ?thesis
    by (simp add: NDMatrix_init_def module_globals_def and_then_def)
qed

subsection \<open>Dimensions at apply time\<close>

lemma vmul_mismatch_shape_error:
  "length a \<noteq> length b \<Longrightarrow> \<exists>e. vmul a b = Inl e \<and> is_shape_error e"
  by (simp add: vmul_def)























subsection \<open>Adjoint consistency\<close>

lemma dot_value: "length a = length b \<Longrightarrow> dot a b = Inr (sum_list (map2 (*) a b))"
  by (simp add: dot_def)

lemma sum_scaled_shift:
  assumes "length a = length b" and "length b = length c"
  shows "sum_list (map2 (*) (map2 (*) a b) c) = sum_list (map2 (*) a (map2 (*) c (b :: real list)))"
  using assms by (induction a b c rule: list_induct3) (simp_all add: mult_ac)

lemma sum_add_left:
  assumes "length a = length b" and "length b = length c"
  shows "sum_list (map2 (*) (map2 (+) a b) c)
       = sum_list (map2 (*) a c) + sum_list (map2 (*) b (c :: real list))"
  using assms by (induction a b c rule: list_induct3) (simp_all add: algebra_simps)

lemma sum_add_right:
  assumes "length x = length a" and "length a = length b"
  shows "sum_list (map2 (*) x (map2 (+) a b))
       = sum_list (map2 (*) x a) + sum_list (map2 (*) x (b :: real list))"
  using assms by (induction x a b rule: list_induct3) (simp_all add: algebra_simps)

lemma adjoint_consistentD:
  assumes "adjoint_consistent M" and "length x = cols M" and "length y = rows M"
  shows "\<exists>u v. mult M x = Inr u \<and> transMult M y = Inr v
          \<and> length u = rows M \<and> length v = cols M
          \<and> sum_list (map2 (*) u y) = sum_list (map2 (*) x v)"
proof -
  from assms obtain u v where uv: "mult M x = Inr u" "transMult M y = Inr v"
      "length u = rows M" "length v = cols M" "dot u y = dot x v"
    unfolding adjoint_consistent_def by blast
  from uv(3,4,5) assms(2,3) have "sum_list (map2 (*) u y) = sum_list (map2 (*) x v)"
    by (simp add: dot_value)
  with uv show ?thesis by blast
qed

lemma adjoint_consistentI:
  assumes "\<And>x y. length x = cols M \<Longrightarrow> length y = rows M \<Longrightarrow>
     \<exists>u v. mult M x = Inr u \<and> transMult M y = Inr v
          \<and> length u = rows M \<and> length v = cols M
          \<and> sum_list (map2 (*) u y) = sum_list (map2 (*) x v)"
  shows "adjoint_consistent M"
  unfolding adjoint_consistent_def
proof (intro allI impI)
  fix x y :: RVector
  assume len: "length x = cols M \<and> length y = rows M"
  then obtain u v where uv: "mult M x = Inr u" "transMult M y = Inr v"
      "length u = rows M" "length v = cols M"
      "sum_list (map2 (*) u y) = sum_list (map2 (*) x v)"
    using assms [of x y] by blast
  have "dot u y = dot x v"
    using uv(3,4,5) len by (simp add: dot_value)
  with uv show "\<exists>u v. mult M x = Inr u \<and> transMult M y = Inr v
             \<and> length u = rows M \<and> length v = cols M \<and> dot u y = dot x v"
    by blast
qed

lemma adjoint_Leaf: "adjoint L \<Longrightarrow> adjoint_consistent (Leaf L)"
  unfolding adjoint_def adjoint_consistent_def by simp

lemma adjoint_MultLeft:
  assumes A: "adjoint_consistent A" and l: "length l = rows A"
  shows "adjoint_consistent (MultLeftMatrix A l)"
proof (rule adjoint_consistentI)
  fix x y :: RVector
  assume x: "length x = cols (MultLeftMatrix A l)" and y: "length y = rows (MultLeftMatrix A l)"
  have "length x = cols A" and "length (map2 (*) y l) = rows A"
    using x y l by simp_all
  from adjoint_consistentD [OF A this]
  obtain u v where uv: "mult A x = Inr u" "transMult A (map2 (*) y l) = Inr v"
      "length u = rows A" "length v = cols A"
      "sum_list (map2 (*) u (map2 (*) y l)) = sum_list (map2 (*) x v)"
    by blast
  have "sum_list (map2 (*) (map2 (*) u l) y) = sum_list (map2 (*) x v)"
    using uv(3,5) l y by (simp add: sum_scaled_shift)
  then show "\<exists>u v. mult (MultLeftMatrix A l) x = Inr u \<and> transMult (MultLeftMatrix A l) y = Inr v
          \<and> length u = rows (MultLeftMatrix A l) \<and> length v = cols (MultLeftMatrix A l)
          \<and> sum_list (map2 (*) u y) = sum_list (map2 (*) x v)"
    using uv l y by (simp add: vmul_simps)
qed

lemma adjoint_MultRight:
  assumes A: "adjoint_consistent A" and r: "length r = cols A"
  shows "adjoint_consistent (MultRightMatrix A r perm)"
proof (rule adjoint_consistentI)
  fix x y :: RVector
  assume x: "length x = cols (MultRightMatrix A r perm)"
    and y: "length y = rows (MultRightMatrix A r perm)"
  have "length (map2 (*) x r) = cols A" and "length y = rows A"
    using x y r by simp_all
  from adjoint_consistentD [OF A this]
  obtain u v where uv: "mult A (map2 (*) x r) = Inr u" "transMult A y = Inr v"
      "length u = rows A" "length v = cols A"
      "sum_list (map2 (*) u y) = sum_list (map2 (*) (map2 (*) x r) v)"
    by blast
  have "sum_list (map2 (*) u y) = sum_list (map2 (*) x (map2 (*) v r))"
    using uv(4,5) r x by (simp add: sum_scaled_shift)
  then show "\<exists>u v. mult (MultRightMatrix A r perm) x = Inr u
          \<and> transMult (MultRightMatrix A r perm) y = Inr v
          \<and> length u = rows (MultRightMatrix A r perm)
          \<and> length v = cols (MultRightMatrix A r perm)
          \<and> sum_list (map2 (*) u y) = sum_list (map2 (*) x v)"
    using uv r x by (simp add: vmul_simps)
qed

lemma adjoint_MultLeftRight:
  assumes A: "adjoint_consistent A" and r: "length r = cols A" and l: "length l = rows A"
  shows "adjoint_consistent (MultLeftRightMatrix A l r)"
proof (rule adjoint_consistentI)
  fix x y :: RVector
  assume x: "length x = cols (MultLeftRightMatrix A l r)"
    and y: "length y = rows (MultLeftRightMatrix A l r)"
  have "length (map2 (*) x r) = cols A" and "length (map2 (*) y l) = rows A"
    using x y r l by simp_all
  from adjoint_consistentD [OF A this]
  obtain u v where uv: "mult A (map2 (*) x r) = Inr u"
      "transMult A (map2 (*) y l) = Inr v"
      "length u = rows A" "length v = cols A"
      "sum_list (map2 (*) u (map2 (*) y l)) = sum_list (map2 (*) (map2 (*) x r) v)"
    by blast
  have "sum_list (map2 (*) (map2 (*) u l) y) = sum_list (map2 (*) u (map2 (*) y l))"
    using uv(3) l y by (simp add: sum_scaled_shift)
  also have "\<dots> = sum_list (map2 (*) (map2 (*) x r) v)"
    by (rule uv(5))
  also have "\<dots> = sum_list (map2 (*) x (map2 (*) v r))"
    using uv(4) r x by (simp add: sum_scaled_shift)
  finally show "\<exists>u v. mult (MultLeftRightMatrix A l r) x = Inr u
          \<and> transMult (MultLeftRightMatrix A l r) y = Inr v
          \<and> length u = rows (MultLeftRightMatrix A l r)
          \<and> length v = cols (MultLeftRightMatrix A l r)
          \<and> sum_list (map2 (*) u y) = sum_list (map2 (*) x v)"
    using uv r l x y by (simp add: vmul_simps)
qed

lemma adjoint_Add2:
  assumes A: "adjoint_consistent A" and B: "adjoint_consistent B"
    and rs: "rows A = rows B" and cs: "cols A = cols B"
  shows "adjoint_consistent (Add2Matrix A B)"
proof (rule adjoint_consistentI)
  fix x y :: RVector
  assume x: "length x = cols (Add2Matrix A B)" and y: "length y = rows (Add2Matrix A B)"
  have xa: "length x = cols A" and ya: "length y = rows A"
    using x y by simp_all
  have xb: "length x = cols B" and yb: "length y = rows B"
    using x y rs cs by simp_all
  from adjoint_consistentD [OF A xa ya]
  obtain ua va where a: "mult A x = Inr ua" "transMult A y = Inr va"
      "length ua = rows A" "length va = cols A"
      "sum_list (map2 (*) ua y) = sum_list (map2 (*) x va)"
    by blast
  from adjoint_consistentD [OF B xb yb]
  obtain ub vb where b: "mult B x = Inr ub" "transMult B y = Inr vb"
      "length ub = rows B" "length vb = cols B"
      "sum_list (map2 (*) ub y) = sum_list (map2 (*) x vb)"
    by blast
  have "sum_list (map2 (*) (map2 (+) ua ub) y) = sum_list (map2 (*) x (map2 (+) va vb))"
    using a(3,4,5) b(3,4,5) rs cs x y by (simp add: sum_add_left sum_add_right)
  then show "\<exists>u v. mult (Add2Matrix A B) x = Inr u \<and> transMult (Add2Matrix A B) y = Inr v
          \<and> length u = rows (Add2Matrix A B) \<and> length v = cols (Add2Matrix A B)
          \<and> sum_list (map2 (*) u y) = sum_list (map2 (*) x v)"
    using a b rs cs by (simp add: vadd_simps)
qed

lemma adjoint_Mult2:
  assumes A: "adjoint_consistent A" and B: "adjoint_consistent B" and inner: "cols A = rows B"
  shows "adjoint_consistent (Mult2Matrix A B)"
proof (rule adjoint_consistentI)
  fix x y :: RVector
  assume x: "length x = cols (Mult2Matrix A B)" and y: "length y = rows (Mult2Matrix A B)"
  have xb: "length x = cols B" and ya: "length y = rows A"
    using x y by simp_all
  have "length (replicate (rows B) (0 :: real)) = rows B" by simp
  from adjoint_consistentD [OF B xb this]
  obtain w where w: "mult B x = Inr w" "length w = rows B"
    by blast
  have "length w = cols A" using w(2) inner by simp
  from adjoint_consistentD [OF A this ya]
  obtain u z where a: "mult A w = Inr u" "transMult A y = Inr z"
      "length u = rows A" "length z = cols A"
      "sum_list (map2 (*) u y) = sum_list (map2 (*) w z)"
    by blast
  have "length z = rows B" using a(4) inner by simp
  from adjoint_consistentD [OF B xb this]
  obtain w' v where b: "mult B x = Inr w'" "transMult B z = Inr v"
      "length v = cols B" "sum_list (map2 (*) w' z) = sum_list (map2 (*) x v)"
    by blast
  have "w' = w" using w(1) b(1) by simp
  then have "sum_list (map2 (*) u y) = sum_list (map2 (*) x v)"
    using a(5) b(4) by simp
  then show "\<exists>u v. mult (Mult2Matrix A B) x = Inr u \<and> transMult (Mult2Matrix A B) y = Inr v
          \<and> length u = rows (Mult2Matrix A B) \<and> length v = cols (Mult2Matrix A B)
          \<and> sum_list (map2 (*) u y) = sum_list (map2 (*) x v)"
    using w a b by simp
qed

lemma adjoint_Diagonal: "adjoint_consistent (DiagonalMatrix d)"
proof (rule adjoint_consistentI)
  fix x y :: RVector
  assume "length x = cols (DiagonalMatrix d)" and "length y = rows (DiagonalMatrix d)"
  then show "\<exists>u v. mult (DiagonalMatrix d) x = Inr u \<and> transMult (DiagonalMatrix d) y = Inr v
          \<and> length u = rows (DiagonalMatrix d) \<and> length v = cols (DiagonalMatrix d)
          \<and> sum_list (map2 (*) u y) = sum_list (map2 (*) x v)"
    by (simp add: vmul_simps sum_scaled_shift)
qed

lemma adjoint_consistency:
  "weights_fit M \<Longrightarrow> scaled_sum_product_diagonal M \<Longrightarrow> list_all adjoint (leaves M)
     \<Longrightarrow> adjoint_consistent M"
proof (induction M)
  case (Leaf L)
  then show ?case by (simp add: adjoint_Leaf)
next
  case (MultLeftMatrix A l)
  then show ?case by (simp add: adjoint_MultLeft)
next
  case (MultRightMatrix A r perm)
  then show ?case by (simp add: adjoint_MultRight)
next
  case (MultLeftRightMatrix A l r)
  then show ?case by (simp add: adjoint_MultLeftRight)
next
  case (Add2Matrix A B)
  then show ?case by (simp add: adjoint_Add2)
next
  case (Mult2Matrix A B)
  then show ?case by (simp add: adjoint_Mult2)
next
  case (DiagonalMatrix d)
  show ?case by (rule adjoint_Diagonal)
next
  case (Cm05Matrix n lam V s N)
  then show ?case by simp
qed

text \<open>
  Claim C8, at the input where the code departs from it. The right-only wrapper of the
  2 by 2 identity with the weight vector \<open>[1, 2, 3]\<close> is constructed (the constructor
  does not compare the length with \<open>cols\<close>); for \<open>x\<close> and \<open>y\<close> of length 2, its extents,
  \<open>mult(x)\<close> raises \<open>AttributeError\<close> and \<open>transMult(y)\<close> fails in the element-wise
  product, so neither side of the adjoint identity has a value. For every operator whose
  weights fit, lemma \<open>adjoint_consistency\<close> gives the identity.
\<close>

theorem adjoint_fails_on_unchecked_right_wrapper:
  "MultRightMatrix_init (Leaf (IdentityMatrix 2)) (Some [1, 2, 3])
     = Inr (MultRightMatrix (Leaf (IdentityMatrix 2)) [1, 2, 3] None)
   \<and> length [1, 1 :: real] = cols (MultRightMatrix (Leaf (IdentityMatrix 2)) [1, 2, 3] None)
   \<and> length [1, 1 :: real] = rows (MultRightMatrix (Leaf (IdentityMatrix 2)) [1, 2, 3] None)
   \<and> mult (MultRightMatrix (Leaf (IdentityMatrix 2)) [1, 2, 3] None) [1, 1]
     = Inl (AttributeError ''perm'')
   \<and> transMult (MultRightMatrix (Leaf (IdentityMatrix 2)) [1, 2, 3] None) [1, 1]
     = Inl DimensionError"
  by (simp add: MultRightMatrix_init_def vmul_def)

end
